theory Spec2Isabelle
  imports Main "HOL-Library.Sublist"
begin

section \<open>JavaScript values used by the handlers\<close>

text \<open>
  Request bodies, environment variables and token payloads are JavaScript objects whose
  fields may be missing. A field holding a string is a \<open>string option\<close> with
  \<open>None\<close> for \<open>undefined\<close>; a field holding a number is an \<open>int option\<close>
  (seconds and milliseconds are whole numbers in this program), where \<open>None\<close> stands
  for \<open>undefined\<close> before arithmetic and for \<open>NaN\<close> after it.
  The conditions of the source are truthiness tests: the empty string and the number 0
  are falsy, as \<open>undefined\<close> is. Codes, identifiers and tokens are ASCII text, so
  that \<open>length\<close> counts what \<^verbatim>\<open>.length\<close> counts.
\<close>

definition truthy :: "string option \<Rightarrow> bool" where
  "truthy v = (case v of None \<Rightarrow> False | Some s \<Rightarrow> s \<noteq> [])"

definition truthy_num :: "int option \<Rightarrow> bool" where
  "truthy_num v = (case v of None \<Rightarrow> False | Some n \<Rightarrow> n \<noteq> 0)"

text \<open>\<^verbatim>\<open>a || b\<close> on strings and on numbers.\<close>

definition js_or :: "string option \<Rightarrow> string option \<Rightarrow> string option" where
  "js_or a b = (if truthy a then a else b)"

definition js_or_num :: "int option \<Rightarrow> int option \<Rightarrow> int option" where
  "js_or_num a b = (if truthy_num a then a else b)"

text \<open>\<^verbatim>\<open>Date.now() + (x * 1000)\<close>: \<open>undefined * 1000\<close> is \<open>NaN\<close>, and so is the sum.\<close>

definition js_now_plus_seconds :: "int \<Rightarrow> int option \<Rightarrow> int option" where
  "js_now_plus_seconds now x = (case x of None \<Rightarrow> None | Some n \<Rightarrow> Some (now + n * 1000))"

text \<open>\<^verbatim>\<open>now >= x\<close> and \<^verbatim>\<open>now < x\<close>: every comparison with \<open>NaN\<close> is false.\<close>

definition js_ge :: "int \<Rightarrow> int option \<Rightarrow> bool" where
  "js_ge now x = (case x of None \<Rightarrow> False | Some e \<Rightarrow> now \<ge> e)"

definition js_lt :: "int \<Rightarrow> int option \<Rightarrow> bool" where
  "js_lt now x = (case x of None \<Rightarrow> False | Some e \<Rightarrow> now < e)"

text \<open>
  The value of an expression such as \<^verbatim>\<open>tokens !== null && tokens.access_token\<close>,
  which is a boolean on one branch and a property value on the other.
\<close>

datatype js_value = JSBool bool | JSString string | JSUndefined

definition js_of_string :: "string option \<Rightarrow> js_value" where
  "js_of_string v = (case v of None \<Rightarrow> JSUndefined | Some s \<Rightarrow> JSString s)"

fun js_truthy :: "js_value \<Rightarrow> bool" where
  "js_truthy (JSBool b) = b"
| "js_truthy (JSString s) = (s \<noteq> [])"
| "js_truthy JSUndefined = False"

fun is_boolean :: "js_value \<Rightarrow> bool" where
  "is_boolean (JSBool b) = True"
| "is_boolean (JSString s) = False"
| "is_boolean JSUndefined = False"

section \<open>services/tokenStore.js\<close>

text \<open>The object passed to \<open>storeUserTokens\<close>.\<close>

record tokens =
  tk_access_token :: "string option"
  tk_refresh_token :: "string option"
  tk_expires_in :: "int option"
  tk_tenant_id :: "string option"

text \<open>The object kept in the map.\<close>

record token_record =
  access_token :: "string option"
  refresh_token :: "string option"
  expires_at :: "int option"
  tenant_id :: "string option"
  stored_at :: int

text \<open>\<^verbatim>\<open>const tokenStore = new Map()\<close>, keyed by user id.\<close>

type_synonym token_store = "string \<rightharpoonup> token_record"

text \<open>
  \<open>storeUserTokens\<close> reads the clock twice, once for \<open>expires_at\<close> and once for
  \<open>stored_at\<close>; the two readings are the first two arguments.
\<close>

definition storeUserTokens ::
  "int \<Rightarrow> int \<Rightarrow> string \<Rightarrow> tokens \<Rightarrow> token_store \<Rightarrow> token_store" where
  "storeUserTokens now1 now2 userId tks tokenStore =
     tokenStore(userId \<mapsto>
       \<lparr> access_token = tk_access_token tks,
         refresh_token = tk_refresh_token tks,
         expires_at = js_now_plus_seconds now1 (tk_expires_in tks),
         tenant_id = tk_tenant_id tks,
         stored_at = now2 \<rparr>)"

definition clearUserTokens :: "string \<Rightarrow> token_store \<Rightarrow> token_store" where
  "clearUserTokens userId tokenStore = tokenStore(userId := None)"

text \<open>
  \<open>getUserTokens\<close> returns the record or \<open>null\<close> (\<open>None\<close>), and the map as it
  leaves it. The clock is read once, after the lookup succeeded.
\<close>

definition getUserTokens ::
  "int \<Rightarrow> string \<Rightarrow> token_store \<Rightarrow> token_record option \<times> token_store" where
  "getUserTokens now userId tokenStore =
     (case tokenStore userId of
        None \<Rightarrow> (None, tokenStore)
      | Some r \<Rightarrow>
          if js_ge now (expires_at r)
          then (None, clearUserTokens userId tokenStore)
          else (Some r, tokenStore))"

text \<open>\<^verbatim>\<open>return tokens !== null && tokens.access_token;\<close>\<close>

definition hasValidTokens ::
  "int \<Rightarrow> string \<Rightarrow> token_store \<Rightarrow> js_value \<times> token_store" where
  "hasValidTokens now userId tokenStore =
     (case getUserTokens now userId tokenStore of
        (None, ts') \<Rightarrow> (JSBool False, ts')
      | (Some r, ts') \<Rightarrow> (js_of_string (access_token r), ts'))"

definition getAccessToken ::
  "int \<Rightarrow> string \<Rightarrow> token_store \<Rightarrow> string option \<times> token_store" where
  "getAccessToken now userId tokenStore =
     (case getUserTokens now userId tokenStore of
        (None, ts') \<Rightarrow> (None, ts')
      | (Some r, ts') \<Rightarrow> (access_token r, ts'))"

definition getTenantId ::
  "int \<Rightarrow> string \<Rightarrow> token_store \<Rightarrow> string option \<times> token_store" where
  "getTenantId now userId tokenStore =
     (case getUserTokens now userId tokenStore of
        (None, ts') \<Rightarrow> (None, ts')
      | (Some r, ts') \<Rightarrow> (tenant_id r, ts'))"

section \<open>Shared state and responses of the routes\<close>

text \<open>\<^verbatim>\<open>process.env\<close>: the variables the routes read.\<close>

record env =
  XERO_CLIENT_ID :: "string option"
  XERO_CLIENT_SECRET :: "string option"
  XERO_CALLBACK_URL :: "string option"
  XERO_SCOPES :: "string option"
  XERO_TENANT_ID :: "string option"

text \<open>The body of the POST that the callback sends to the token endpoint.\<close>

record token_request =
  grant_type :: string
  tq_code :: string
  redirect_uri :: string
  basic_auth :: "string \<times> string"

text \<open>
  The module-level state: \<open>usedCodes\<close> of routes/xero.js and the map of
  services/tokenStore.js. \<open>tokenRequests\<close> is not a variable of the program: it
  records, in order, each request the server has sent to the token endpoint, so that
  "no exchange call is performed" can be stated.
\<close>

record server_state =
  usedCodes :: "string set"
  tokenStore :: token_store
  tokenRequests :: "token_request list"

text \<open>The timer of routes/xero.js: \<^verbatim>\<open>setInterval(() => { usedCodes.clear(); }, ...)\<close>.\<close>

definition sweep :: "server_state \<Rightarrow> server_state" where
  "sweep st = st\<lparr>usedCodes := {}\<rparr>"

record user_info =
  ui_email :: "string option"
  ui_sub :: "string option"

record tenant =
  tenantId :: "string option"

record callback_data =
  cd_access_token :: "string option"
  cd_refresh_token :: "string option"
  cd_id_token :: "string option"
  cd_expires_in :: "int option"
  cd_token_type :: "string option"
  cd_user_info :: "user_info option"
  cd_tenants :: "tenant list option"
  cd_userId :: "string option"

text \<open>
  The JSON bodies the modelled routes send. Of an error body the \<open>error\<close> field is
  kept (and \<open>xeroErrorCode\<close> where the route sets it); \<open>details\<close>,
  \<open>requestId\<close>, \<open>message\<close> and \<open>timestamp\<close> are left out.
\<close>

datatype json =
    ErrorJson string
  | XeroErrorJson string string
  | StoredJson
  | TokensJson callback_data
  | AuthUrlJson string string
  | TokenStatusJson js_value string

datatype response = Response nat json

fun status :: "response \<Rightarrow> nat" where
  "status (Response n j) = n"

fun body :: "response \<Rightarrow> json" where
  "body (Response n j) = j"

section \<open>routes/xero.js: POST /store-tokens and GET /tokens/status\<close>

record store_tokens_body =
  sb_userId :: "string option"
  sb_access_token :: "string option"
  sb_refresh_token :: "string option"
  sb_expires_in :: "int option"
  sb_tenant_id :: "string option"

definition post_store_tokens ::
  "env \<Rightarrow> int \<Rightarrow> int \<Rightarrow> store_tokens_body \<Rightarrow> server_state \<Rightarrow> response \<times> server_state" where
  "post_store_tokens e now1 now2 b st =
     (if \<not> truthy (sb_userId b) \<or> \<not> truthy (sb_access_token b)
      then (Response 400 (ErrorJson ''userId and access_token are required''), st)
      else
        let tokensToStore =
              \<lparr> tk_access_token = sb_access_token b,
                tk_refresh_token = sb_refresh_token b,
                tk_expires_in = js_or_num (sb_expires_in b) (Some 1800),
                tk_tenant_id = js_or (sb_tenant_id b) (XERO_TENANT_ID e) \<rparr>
        in (Response 200 StoredJson,
            st\<lparr>tokenStore :=
                 storeUserTokens now1 now2 (the (sb_userId b)) tokensToStore (tokenStore st)\<rparr>))"

definition get_tokens_status ::
  "int \<Rightarrow> string option \<Rightarrow> server_state \<Rightarrow> response \<times> server_state" where
  "get_tokens_status now userId st =
     (if \<not> truthy userId
      then (Response 400 (ErrorJson ''userId is required''), st)
      else
        (case hasValidTokens now (the userId) (tokenStore st) of
           (v, ts') \<Rightarrow> (Response 200 (TokenStatusJson v (the userId)), st\<lparr>tokenStore := ts'\<rparr>)))"

section \<open>routes/xero.js: POST /callback\<close>

record callback_body =
  cb_code :: "string option"
  cb_state :: "string option"

text \<open>The \<open>data\<close> of a successful answer of the token endpoint.\<close>

record token_response =
  tr_access_token :: "string option"
  tr_refresh_token :: "string option"
  tr_id_token :: "string option"
  tr_expires_in :: "int option"
  tr_token_type :: "string option"

text \<open>The \<open>data\<close> of an error answer: \<open>error\<close> and \<open>error_description\<close>.\<close>

record xero_error =
  xe_error :: "string option"
  xe_error_description :: "string option"

text \<open>
  What \<^verbatim>\<open>await axios.post(...)\<close> does: it resolves with the token data, or it throws
  an error that has a \<open>response\<close> (status and data), or only a \<open>request\<close> (nothing
  came back, which covers the timeout), or neither.
\<close>

datatype exchange_result =
    ExchangeOk token_response
  | ExchangeHttpError nat xero_error
  | ExchangeNoResponse
  | ExchangeSetupError

text \<open>
  What \<^verbatim>\<open>await axios.get('https://api.xero.com/connections', ...)\<close> does: it resolves
  with an array, or with \<open>null\<close> data, whose \<open>length\<close> cannot be read, or it throws.
\<close>

datatype connections_result =
    ConnectionsOk "tenant list"
  | ConnectionsNull
  | ConnectionsFailed

text \<open>
  Everything outside the process that one callback request meets: the answers of the
  two endpoints, the payload that decoding an id token yields (\<open>None\<close> when the token
  has not three parts or decoding throws), and the clock readings of the two possible
  calls of \<open>storeUserTokens\<close>.
\<close>

record world =
  token_endpoint :: exchange_result
  connections_endpoint :: connections_result
  id_token_payload :: "string \<Rightarrow> user_info option"
  clock_email :: "int \<times> int"
  clock_sub :: "int \<times> int"

text \<open>What reaches the \<open>catch\<close> block of the handler.\<close>

datatype thrown =
    ThrownHttp nat xero_error
  | ThrownNoResponse
  | ThrownOther

text \<open>\<^verbatim>\<open>error.response?.data?.error !== 'invalid_grant'\<close>\<close>

fun not_invalid_grant :: "thrown \<Rightarrow> bool" where
  "not_invalid_grant (ThrownHttp n d) = (xe_error d \<noteq> Some ''invalid_grant'')"
| "not_invalid_grant ThrownNoResponse = True"
| "not_invalid_grant ThrownOther = True"

text \<open>The \<open>switch\<close> on \<open>xeroError.error\<close> that picks the \<open>error\<close> field of the answer.\<close>

definition xero_error_message :: "string \<Rightarrow> string" where
  "xero_error_message err =
     (if err = ''unauthorized_client'' then ''Xero App Configuration Error''
      else if err = ''invalid_grant'' then ''Authorization Code Error''
      else if err = ''invalid_client'' then ''Invalid Client Credentials''
      else if err = ''invalid_request'' then ''Invalid OAuth Request''
      else err)"

fun callback_error_response :: "thrown \<Rightarrow> response" where
  "callback_error_response (ThrownHttp n d) =
     (if truthy (xe_error d)
      then Response 400 (XeroErrorJson (xero_error_message (the (xe_error d))) (the (xe_error d)))
      else if n = 400 then Response 400 (ErrorJson ''Bad Request - OAuth Configuration Issue'')
      else if n = 401 then Response 401 (ErrorJson ''Unauthorized - Invalid client credentials'')
      else Response 500 (ErrorJson ''Token exchange failed''))"
| "callback_error_response ThrownNoResponse =
     Response 503 (ErrorJson ''Service unavailable - Could not reach Xero token endpoint'')"
| "callback_error_response ThrownOther = Response 500 (ErrorJson ''Token exchange failed'')"

text \<open>
  The \<open>catch\<close> block: the code is taken out of \<open>usedCodes\<close> unless the error is
  \<open>invalid_grant\<close>, then the error is turned into a response.
\<close>

definition callback_catch ::
  "callback_body \<Rightarrow> thrown \<Rightarrow> server_state \<Rightarrow> response \<times> server_state" where
  "callback_catch b err st =
     (callback_error_response err,
      if truthy (cb_code b) \<and> not_invalid_grant err
      then st\<lparr>usedCodes := usedCodes st - {the (cb_code b)}\<rparr>
      else st)"

text \<open>
  The handler after a successful exchange: decoding the id token, fetching the tenants,
  storing the tokens under the email and under \<open>sub\<close>, answering. Reading
  \<open>tenants.length\<close> of \<open>null\<close> throws into the \<open>catch\<close> block.
\<close>

definition callback_after_exchange ::
  "env \<Rightarrow> world \<Rightarrow> callback_body \<Rightarrow> token_response \<Rightarrow> server_state \<Rightarrow> response \<times> server_state" where
  "callback_after_exchange e w b data st =
     (let user_info =
            (if truthy (tr_id_token data) then id_token_payload w (the (tr_id_token data)) else None);
          tenants =
            (case connections_endpoint w of
               ConnectionsOk ts \<Rightarrow> Some ts
             | ConnectionsNull \<Rightarrow> None
             | ConnectionsFailed \<Rightarrow> Some [])
      in
        (case user_info of
           None \<Rightarrow>
             (Response 200 (TokensJson
                \<lparr> cd_access_token = tr_access_token data,
                  cd_refresh_token = tr_refresh_token data,
                  cd_id_token = tr_id_token data,
                  cd_expires_in = tr_expires_in data,
                  cd_token_type = tr_token_type data,
                  cd_user_info = None,
                  cd_tenants = tenants,
                  cd_userId = None \<rparr>), st)
         | Some ui \<Rightarrow>
             if \<not> (truthy (ui_email ui) \<or> truthy (ui_sub ui))
             then
               (Response 200 (TokensJson
                  \<lparr> cd_access_token = tr_access_token data,
                    cd_refresh_token = tr_refresh_token data,
                    cd_id_token = tr_id_token data,
                    cd_expires_in = tr_expires_in data,
                    cd_token_type = tr_token_type data,
                    cd_user_info = Some ui,
                    cd_tenants = tenants,
                    cd_userId = None \<rparr>), st)
             else
               (case tenants of
                  None \<Rightarrow> callback_catch b ThrownOther st
                | Some ts \<Rightarrow>
                    let tokensToStore =
                          \<lparr> tk_access_token = tr_access_token data,
                            tk_refresh_token = tr_refresh_token data,
                            tk_expires_in = tr_expires_in data,
                            tk_tenant_id =
                              (case ts of [] \<Rightarrow> XERO_TENANT_ID e | t # _ \<Rightarrow> tenantId t) \<rparr>;
                        store1 =
                          (if truthy (ui_email ui)
                           then storeUserTokens (fst (clock_email w)) (snd (clock_email w))
                                  (the (ui_email ui)) tokensToStore (tokenStore st)
                           else tokenStore st);
                        store2 =
                          (if truthy (ui_sub ui) \<and> ui_sub ui \<noteq> ui_email ui
                           then storeUserTokens (fst (clock_sub w)) (snd (clock_sub w))
                                  (the (ui_sub ui)) tokensToStore store1
                           else store1)
                    in
                      (Response 200 (TokensJson
                         \<lparr> cd_access_token = tr_access_token data,
                           cd_refresh_token = tr_refresh_token data,
                           cd_id_token = tr_id_token data,
                           cd_expires_in = tr_expires_in data,
                           cd_token_type = tr_token_type data,
                           cd_user_info = Some ui,
                           cd_tenants = tenants,
                           cd_userId = js_or (ui_email ui) (ui_sub ui) \<rparr>),
                       st\<lparr>tokenStore := store2\<rparr>))))"

text \<open>
  The handler. The request body's \<open>code\<close> is a string or missing; the steps are in the
  order of the source: missing code, code already used, mark as used, length check,
  environment check, exchange.
\<close>

definition post_callback ::
  "env \<Rightarrow> world \<Rightarrow> callback_body \<Rightarrow> server_state \<Rightarrow> response \<times> server_state" where
  "post_callback e w b st =
     (if \<not> truthy (cb_code b)
      then (Response 400 (ErrorJson ''No authorization code provided''), st)
      else
        let code = the (cb_code b) in
        if code \<in> usedCodes st
        then (Response 400 (ErrorJson ''Authorization code has already been used''), st)
        else
          let st1 = st\<lparr>usedCodes := insert code (usedCodes st)\<rparr> in
          if length code < 10
          then (Response 400 (ErrorJson ''Invalid authorization code format''), st1)
          else if \<not> truthy (XERO_CLIENT_ID e) \<or> \<not> truthy (XERO_CLIENT_SECRET e)
                  \<or> \<not> truthy (XERO_CALLBACK_URL e)
          then (Response 500
                  (ErrorJson ''Server configuration error - missing environment variables''), st1)
          else
            let tokenData =
                  \<lparr> grant_type = ''authorization_code'',
                    tq_code = code,
                    redirect_uri = the (XERO_CALLBACK_URL e),
                    basic_auth = (the (XERO_CLIENT_ID e), the (XERO_CLIENT_SECRET e)) \<rparr>;
                st2 = st1\<lparr>tokenRequests := tokenRequests st1 @ [tokenData]\<rparr>
            in
              (case token_endpoint w of
                 ExchangeOk data \<Rightarrow> callback_after_exchange e w b data st2
               | ExchangeHttpError n d \<Rightarrow> callback_catch b (ThrownHttp n d) st2
               | ExchangeNoResponse \<Rightarrow> callback_catch b ThrownNoResponse st2
               | ExchangeSetupError \<Rightarrow> callback_catch b ThrownOther st2))"

section \<open>routes/xero.js: GET /auth\<close>

text \<open>
  \<^verbatim>\<open>authUrl.searchParams.append(name, value)\<close> followed by \<^verbatim>\<open>authUrl.toString()\<close>
  serialises the parameters as \<open>application/x-www-form-urlencoded\<close>: letters, digits
  and \<open>* - . _\<close> stay, a space becomes \<open>+\<close>, every other byte becomes \<open>%\<close> and
  two upper-case hexadecimal digits. A \<open>string\<close> is the UTF-8 bytes of the text.
\<close>

definition hex_digit :: "nat \<Rightarrow> char" where
  "hex_digit n = ''0123456789ABCDEF'' ! (n mod 16)"

definition urlencoded_keeps :: "char \<Rightarrow> bool" where
  "urlencoded_keeps c =
     (c \<in> set ''ABCDEFGHIJKLMNOPQRSTUVWXYZabcdefghijklmnopqrstuvwxyz0123456789*-._'')"

definition urlencode_char :: "char \<Rightarrow> string" where
  "urlencode_char c =
     (if c = CHR '' '' then ''+''
      else if urlencoded_keeps c then [c]
      else [CHR ''%'', hex_digit (of_char c div 16), hex_digit (of_char c mod 16)])"

definition urlencode :: "string \<Rightarrow> string" where
  "urlencode s = concat (map urlencode_char s)"

fun serialize_params :: "(string \<times> string) list \<Rightarrow> string" where
  "serialize_params [] = []"
| "serialize_params [(k, v)] = urlencode k @ ''='' @ urlencode v"
| "serialize_params ((k, v) # kv # kvs) =
     urlencode k @ ''='' @ urlencode v @ ''&'' @ serialize_params (kv # kvs)"

text \<open>\<^verbatim>\<open>s.substring(2, 15)\<close>\<close>

definition substring_2_15 :: "string \<Rightarrow> string" where
  "substring_2_15 s = take 13 (drop 2 s)"

definition default_scopes :: string where
  "default_scopes = ''openid profile email offline_access accounting.transactions accounting.contacts accounting.attachments accounting.settings.read accounting.reports.read''"

text \<open>
  The handler. Its two last arguments are the strings that the two evaluations of
  \<^verbatim>\<open>Math.random().toString(36)\<close> return: \<open>0.\<close> followed by the base-36 digits of the
  random number, as many as the number needs (\<open>0.i\<close> for one half).
\<close>

definition get_auth :: "env \<Rightarrow> string \<Rightarrow> string \<Rightarrow> response" where
  "get_auth e random1 random2 =
     (if \<not> truthy (XERO_CLIENT_ID e) \<or> \<not> truthy (XERO_CALLBACK_URL e)
      then Response 500 (ErrorJson ''Server configuration error - missing OAuth credentials'')
      else
        let state = substring_2_15 random1 @ substring_2_15 random2;
            scopes = the (js_or (XERO_SCOPES e) (Some default_scopes));
            authUrl =
              ''https://login.xero.com/identity/connect/authorize'' @ ''?'' @
              serialize_params
                [(''response_type'', ''code''),
                 (''client_id'', the (XERO_CLIENT_ID e)),
                 (''redirect_uri'', the (XERO_CALLBACK_URL e)),
                 (''scope'', scopes),
                 (''state'', state)]
        in Response 200 (AuthUrlJson authUrl state))"

section \<open>middleware/auth.js: authenticateToken\<close>

text \<open>The fields of the decoded payload that the middleware reads.\<close>

record payload =
  iss :: "string option"
  aud :: "string option"
  exp :: "int option"
  email :: "string option"
  sub :: "string option"
  xero_userid :: "string option"

text \<open>\<open>req.user\<close>: the payload, with \<open>email\<close>, \<open>id\<close> and \<open>sub\<close> set.\<close>

record user =
  claims :: payload
  user_email :: "string option"
  user_id :: "string option"
  user_sub :: "string option"

datatype gate_result = Rejected nat string | Next user

text \<open>\<^verbatim>\<open>authHeader.split(' ')\<close>\<close>

fun split_space :: "string \<Rightarrow> string list" where
  "split_space [] = [[]]"
| "split_space (c # cs) =
     (if c = CHR '' '' then [] # split_space cs
      else (case split_space cs of [] \<Rightarrow> [[c]] | p # ps \<Rightarrow> (c # p) # ps))"

text \<open>\<^verbatim>\<open>authHeader && authHeader.split(' ')[1]\<close>\<close>

definition bearer_token :: "string option \<Rightarrow> string option" where
  "bearer_token authHeader =
     (if \<not> truthy authHeader then authHeader
      else
        let parts = split_space (the authHeader)
        in if 1 < length parts then Some (parts ! 1) else None)"

text \<open>\<^verbatim>\<open>payload.iss.includes('xero')\<close>\<close>

fun includes_str :: "string \<Rightarrow> string \<Rightarrow> bool" where
  "includes_str [] pat = (pat = [])"
| "includes_str (c # cs) pat = (prefix pat (c # cs) \<or> includes_str cs pat)"

text \<open>\<^verbatim>\<open>payload.exp && Date.now() >= payload.exp * 1000\<close>\<close>

definition exp_check_fails :: "int \<Rightarrow> int option \<Rightarrow> bool" where
  "exp_check_fails now x = (case x of None \<Rightarrow> False | Some n \<Rightarrow> n \<noteq> 0 \<and> now \<ge> n * 1000)"

text \<open>
  The middleware, from the point where the token has been decoded: \<open>jwt.decode\<close> is the
  first argument and yields \<open>None\<close> where the library returns \<open>null\<close> or no payload.
\<close>

definition authenticateToken ::
  "(string \<Rightarrow> payload option) \<Rightarrow> int \<Rightarrow> string option \<Rightarrow> gate_result" where
  "authenticateToken jwt_decode now authHeader =
     (let token = bearer_token authHeader in
      if \<not> truthy token then Rejected 401 ''Access token required''
      else
        (case jwt_decode (the token) of
           None \<Rightarrow> Rejected 403 ''Invalid token format''
         | Some p \<Rightarrow>
             if \<not> truthy (iss p) \<or> \<not> truthy (aud p)
             then Rejected 403 ''Invalid token format''
             else if exp_check_fails now (exp p)
             then Rejected 403 ''Token has expired''
             else if includes_str (the (iss p)) ''xero''
             then
               (let userIdentifier = js_or (js_or (email p) (sub p)) (xero_userid p) in
                if \<not> truthy userIdentifier
                then Rejected 403 ''Invalid Xero token - missing user identifier''
                else Next \<lparr> claims = p,
                            user_email = js_or (email p) userIdentifier,
                            user_id = userIdentifier,
                            user_sub = js_or (sub p) userIdentifier \<rparr>)
             else
               (let userIdentifier = js_or (email p) (sub p) in
                if \<not> truthy userIdentifier
                then Rejected 403 ''Invalid token - missing user identifier''
                else Next \<lparr> claims = p,
                            user_email = js_or (email p) userIdentifier,
                            user_id = userIdentifier,
                            user_sub = js_or (sub p) userIdentifier \<rparr>)))"

section \<open>Notions used to state the properties\<close>

text \<open>
  The request gets as far as the exchange: it carries a code that is not marked used
  and has at least 10 characters, and the three variables are set.
\<close>

definition reaches_exchange :: "env \<Rightarrow> callback_body \<Rightarrow> server_state \<Rightarrow> bool" where
  "reaches_exchange e b st =
     (truthy (cb_code b) \<and> the (cb_code b) \<notin> usedCodes st \<and> 10 \<le> length (the (cb_code b))
      \<and> truthy (XERO_CLIENT_ID e) \<and> truthy (XERO_CLIENT_SECRET e)
      \<and> truthy (XERO_CALLBACK_URL e))"

fun exchange_failed :: "exchange_result \<Rightarrow> bool" where
  "exchange_failed (ExchangeOk d) = False"
| "exchange_failed (ExchangeHttpError n d) = True"
| "exchange_failed ExchangeNoResponse = True"
| "exchange_failed ExchangeSetupError = True"

fun is_invalid_grant :: "exchange_result \<Rightarrow> bool" where
  "is_invalid_grant (ExchangeHttpError n d) = (xe_error d = Some ''invalid_grant'')"
| "is_invalid_grant (ExchangeOk d) = False"
| "is_invalid_grant ExchangeNoResponse = False"
| "is_invalid_grant ExchangeSetupError = False"

definition code_already_used :: response where
  "code_already_used = Response 400 (ErrorJson ''Authorization code has already been used'')"

definition malformed_code :: response where
  "malformed_code = Response 400 (ErrorJson ''Invalid authorization code format'')"

text \<open>The \<open>state\<close> field of the answer of GET /auth.\<close>

fun auth_state :: "response \<Rightarrow> string" where
  "auth_state (Response n (AuthUrlJson u s)) = s"
| "auth_state (Response n j) = []"

section \<open>Example inputs\<close>

definition example_record :: token_record where
  "example_record =
     \<lparr> access_token = Some ''at-1'', refresh_token = Some ''rt-1'',
       expires_at = Some 5000, tenant_id = Some ''tenant-1'', stored_at = 1000 \<rparr>"

definition example_store :: token_store where
  "example_store = Map.empty(''alice@example.com'' \<mapsto> example_record)"

definition example_tokens :: tokens where
  "example_tokens =
     \<lparr> tk_access_token = Some ''at-1'', tk_refresh_token = Some ''rt-1'',
       tk_expires_in = Some 1800, tk_tenant_id = Some ''tenant-1'' \<rparr>"

definition zero_lifetime_tokens :: tokens where
  "zero_lifetime_tokens =
     \<lparr> tk_access_token = Some ''at-1'', tk_refresh_token = None,
       tk_expires_in = Some 0, tk_tenant_id = None \<rparr>"

definition example_env :: env where
  "example_env =
     \<lparr> XERO_CLIENT_ID = Some ''abc123'', XERO_CLIENT_SECRET = Some ''secret'',
       XERO_CALLBACK_URL = Some ''https://app.test/callback'',
       XERO_SCOPES = None, XERO_TENANT_ID = Some ''tenant-0'' \<rparr>"

definition initial_state :: server_state where
  "initial_state = \<lparr> usedCodes = {}, tokenStore = Map.empty, tokenRequests = [] \<rparr>"

definition example_body :: callback_body where
  "example_body = \<lparr> cb_code = Some ''code-0123456789'', cb_state = Some ''xyz'' \<rparr>"

definition short_body :: callback_body where
  "short_body = \<lparr> cb_code = Some ''short'', cb_state = None \<rparr>"

definition empty_code_body :: callback_body where
  "empty_code_body = \<lparr> cb_code = Some [], cb_state = None \<rparr>"

definition example_token_response :: token_response where
  "example_token_response =
     \<lparr> tr_access_token = Some ''at-1'', tr_refresh_token = Some ''rt-1'',
       tr_id_token = None, tr_expires_in = Some 1800, tr_token_type = Some ''Bearer'' \<rparr>"

definition world_ok :: world where
  "world_ok =
     \<lparr> token_endpoint = ExchangeOk example_token_response,
       connections_endpoint = ConnectionsOk [],
       id_token_payload = (\<lambda>t. None),
       clock_email = (1000, 1000), clock_sub = (1000, 1000) \<rparr>"

definition world_no_response :: world where
  "world_no_response = world_ok\<lparr> token_endpoint := ExchangeNoResponse \<rparr>"

definition world_invalid_grant :: world where
  "world_invalid_grant =
     world_ok\<lparr> token_endpoint :=
       ExchangeHttpError 400 \<lparr> xe_error = Some ''invalid_grant'', xe_error_description = None \<rparr> \<rparr>"

definition example_store_body :: store_tokens_body where
  "example_store_body =
     \<lparr> sb_userId = Some ''u1'', sb_access_token = Some ''at-1'', sb_refresh_token = None,
       sb_expires_in = None, sb_tenant_id = None \<rparr>"

definition zero_exp_payload :: payload where
  "zero_exp_payload =
     \<lparr> iss = Some ''https://identity.xero.com'', aud = Some ''abc123'', exp = Some 0,
       email = Some ''alice@example.com'', sub = None, xero_userid = None \<rparr>"


text \<open>A decoder that knows one token.\<close>

definition decode_as :: "payload \<Rightarrow> string \<Rightarrow> payload option" where
  "decode_as p t = (if t = ''tok'' then Some p else None)"



definition negative_lifetime_tokens :: tokens where
  "negative_lifetime_tokens =
     \<lparr> tk_access_token = Some ''at-1'', tk_refresh_token = None,
       tk_expires_in = Some (- 5), tk_tenant_id = None \<rparr>"


section \<open>Token store\<close>

text \<open>
  Claim C4. For every user id and every store, \<open>getUserTokens\<close> returns the stored
  record when one exists and \<open>now < expires_at\<close>; when a record exists and
  \<open>now >= expires_at\<close> it returns \<open>null\<close> and deletes the record from the map;
  when there is no record it returns \<open>null\<close> and leaves the map alone. Whatever it
  returns is the record stored under that user id and is not expired, whether or not
  \<open>clearUserTokens\<close> was ever called.
\<close>

theorem getUserTokens_lazy_expiry:
  "(tstore userId = Some r \<and> js_lt now (expires_at r)
      \<longrightarrow> getUserTokens now userId tstore = (Some r, tstore))
   \<and> (tstore userId = Some r \<and> js_ge now (expires_at r)
      \<longrightarrow> getUserTokens now userId tstore = (None, tstore(userId := None)))
   \<and> (tstore userId = None
      \<longrightarrow> getUserTokens now userId tstore = (None, tstore))
   \<and> (\<forall>r'. fst (getUserTokens now userId tstore) = Some r'
      \<longrightarrow> tstore userId = Some r' \<and> \<not> js_ge now (expires_at r'))"
  by (auto simp: getUserTokens_def clearUserTokens_def js_lt_def js_ge_def
           split: option.splits if_splits)

theorem getUserTokens_lazy_expiry_witness:
  "getUserTokens 4999 ''alice@example.com'' example_store = (Some example_record, example_store)
   \<and> getUserTokens 5000 ''alice@example.com'' example_store
       = (None, example_store(''alice@example.com'' := None))
   \<and> getUserTokens 4999 ''bob@example.com'' example_store = (None, example_store)"
  using getUserTokens_lazy_expiry [of example_store "''alice@example.com''" example_record 4999]
        getUserTokens_lazy_expiry [of example_store "''alice@example.com''" example_record 5000]
        getUserTokens_lazy_expiry [of example_store "''bob@example.com''" example_record 4999]
  by (simp add: example_store_def example_record_def js_lt_def js_ge_def)

text \<open>
  Claim C5, as stated, fails: tokens stored with a lifetime of 0 seconds are expired at
  the very instant they are stored, and the \<open>getUserTokens\<close> that follows returns
  \<open>null\<close> and takes the record out of the map.
\<close>

theorem store_get_roundtrip_counterexample:
  "fst (getUserTokens 1000 ''u1''
          (storeUserTokens 1000 1000 ''u1'' zero_lifetime_tokens Map.empty)) = None
   \<and> snd (getUserTokens 1000 ''u1''
          (storeUserTokens 1000 1000 ''u1'' zero_lifetime_tokens Map.empty)) ''u1'' = None"
  by (simp add: getUserTokens_def storeUserTokens_def zero_lifetime_tokens_def
        js_now_plus_seconds_def js_ge_def clearUserTokens_def)

text \<open>
  Claim C5, amended. \<open>storeUserTokens\<close> followed by \<open>getUserTokens\<close> for the same
  user, at a time that is not at or past the expiry just stored (so: before
  \<open>now + expires_in * 1000\<close>, or at any time when \<open>expires_in\<close> is missing and the
  expiry is \<open>NaN\<close>), returns a record whose \<open>access_token\<close> is exactly that of the
  tokens stored. At or past that expiry it returns \<open>null\<close> and deletes the record;
  with \<open>expires_in <= 0\<close> this is so for every \<open>getUserTokens\<close> at the instant of
  storing or later.
\<close>

theorem store_get_roundtrip:
  "(\<not> js_ge now' (js_now_plus_seconds now1 (tk_expires_in tks)) \<longrightarrow>
      (\<exists>r. fst (getUserTokens now' userId (storeUserTokens now1 now2 userId tks tstore)) = Some r
         \<and> access_token r = tk_access_token tks))
   \<and> (js_ge now' (js_now_plus_seconds now1 (tk_expires_in tks)) \<longrightarrow>
        getUserTokens now' userId (storeUserTokens now1 now2 userId tks tstore)
          = (None, tstore(userId := None)))
   \<and> (\<forall>n. tk_expires_in tks = Some n \<and> n \<le> 0 \<and> now1 \<le> now' \<longrightarrow>
        getUserTokens now' userId (storeUserTokens now1 now2 userId tks tstore)
          = (None, tstore(userId := None)))"
proof -
  have 1: "\<not> js_ge now' (js_now_plus_seconds now1 (tk_expires_in tks)) \<longrightarrow>
      (\<exists>r. fst (getUserTokens now' userId (storeUserTokens now1 now2 userId tks tstore)) = Some r
         \<and> access_token r = tk_access_token tks)"
    by (simp add: getUserTokens_def storeUserTokens_def)
  have 2: "js_ge now' (js_now_plus_seconds now1 (tk_expires_in tks)) \<longrightarrow>
        getUserTokens now' userId (storeUserTokens now1 now2 userId tks tstore)
          = (None, tstore(userId := None))"
    by (simp add: getUserTokens_def storeUserTokens_def clearUserTokens_def)
  have 3: "\<forall>n. tk_expires_in tks = Some n \<and> n \<le> 0 \<and> now1 \<le> now' \<longrightarrow>
        js_ge now' (js_now_plus_seconds now1 (tk_expires_in tks))"
    by (auto simp: js_ge_def js_now_plus_seconds_def)
  from 1 2 3 show ?thesis by blast
qed

theorem store_get_roundtrip_witness:
  "\<not> js_ge 1000 (js_now_plus_seconds 1000 (tk_expires_in example_tokens))
   \<and> (\<exists>r. fst (getUserTokens 1000 ''u1''
               (storeUserTokens 1000 1000 ''u1'' example_tokens Map.empty)) = Some r
          \<and> access_token r = Some ''at-1'')
   \<and> js_ge 1800000 (js_now_plus_seconds 0 (tk_expires_in example_tokens))
   \<and> getUserTokens 1800000 ''u1'' (storeUserTokens 0 0 ''u1'' example_tokens example_store)
       = (None, example_store(''u1'' := None))
   \<and> tk_expires_in zero_lifetime_tokens = Some 0
   \<and> getUserTokens 1000 ''u1'' (storeUserTokens 1000 1000 ''u1'' zero_lifetime_tokens example_store)
       = (None, example_store(''u1'' := None))
   \<and> tk_expires_in negative_lifetime_tokens = Some (- 5)
   \<and> getUserTokens 1003 ''u1''
        (storeUserTokens 1000 1001 ''u1'' negative_lifetime_tokens example_store)
       = (None, example_store(''u1'' := None))"
proof -
  have h: "\<not> js_ge 1000 (js_now_plus_seconds 1000 (tk_expires_in example_tokens))"
    by (simp add: js_ge_def js_now_plus_seconds_def example_tokens_def)
  have g: "js_ge 1800000 (js_now_plus_seconds 0 (tk_expires_in example_tokens))"
    by (simp add: js_ge_def js_now_plus_seconds_def example_tokens_def)
  have z: "tk_expires_in zero_lifetime_tokens = Some 0"
    by (simp add: zero_lifetime_tokens_def)
  have m: "tk_expires_in negative_lifetime_tokens = Some (- 5)"
    by (simp add: negative_lifetime_tokens_def)
  from store_get_roundtrip [of 1000 1000 example_tokens "''u1''" 1000 Map.empty] h
  have 1: "\<exists>r. fst (getUserTokens 1000 ''u1''
               (storeUserTokens 1000 1000 ''u1'' example_tokens Map.empty)) = Some r
          \<and> access_token r = Some ''at-1''"
    by (simp add: example_tokens_def)
  from store_get_roundtrip [of 1800000 0 example_tokens "''u1''" 0 example_store] g
  have 2: "getUserTokens 1800000 ''u1'' (storeUserTokens 0 0 ''u1'' example_tokens example_store)
       = (None, example_store(''u1'' := None))"
    by blast
  from store_get_roundtrip
         [of 1000 1000 zero_lifetime_tokens "''u1''" 1000 example_store,
          THEN conjunct2, THEN conjunct2, rule_format, of 0] z
  have 3: "getUserTokens 1000 ''u1''
        (storeUserTokens 1000 1000 ''u1'' zero_lifetime_tokens example_store)
       = (None, example_store(''u1'' := None))"
    by simp
  from store_get_roundtrip
         [of 1003 1000 negative_lifetime_tokens "''u1''" 1001 example_store,
          THEN conjunct2, THEN conjunct2, rule_format, of "- 5"] m
  have 4: "getUserTokens 1003 ''u1''
        (storeUserTokens 1000 1001 ''u1'' negative_lifetime_tokens example_store)
       = (None, example_store(''u1'' := None))"
    by simp
  from h 1 g 2 z 3 m 4 show ?thesis by (intro conjI)
qed

text \<open>
  What \<open>hasValidTokens\<close> returns is truthy exactly when \<open>getUserTokens\<close> returns a
  record with a non-empty access token.
\<close>

lemma hasValidTokens_truthy_iff:
  "js_truthy (fst (hasValidTokens now userId tstore))
   = (case fst (getUserTokens now userId tstore) of
        None \<Rightarrow> False | Some r \<Rightarrow> truthy (access_token r))"
  by (auto simp: hasValidTokens_def truthy_def js_of_string_def split: option.splits prod.splits)

text \<open>
  Claim C6 says that \<open>hasValidTokens\<close> returns the boolean \<open>true\<close> when the user has
  a record with a non-empty access token. The code returns the value of
  \<^verbatim>\<open>tokens !== null && tokens.access_token\<close>, which for such a record is the access
  token itself: after storing the token \<open>at-1\<close> for \<open>u1\<close>, \<open>hasValidTokens\<close>
  returns the string \<open>at-1\<close>, which is not a boolean.
\<close>

theorem hasValidTokens_returns_access_token:
  "fst (hasValidTokens 1000 ''u1''
          (storeUserTokens 1000 1000 ''u1'' example_tokens Map.empty)) = JSString ''at-1''
   \<and> \<not> is_boolean (fst (hasValidTokens 1000 ''u1''
          (storeUserTokens 1000 1000 ''u1'' example_tokens Map.empty)))"
  by (simp add: hasValidTokens_def getUserTokens_def storeUserTokens_def example_tokens_def
        js_now_plus_seconds_def js_ge_def js_of_string_def)

text \<open>
  The route in front of \<open>hasValidTokens\<close> puts that value into its answer: after the
  same store, GET /tokens/status answers with the access token in the field
  \<open>hasValidTokens\<close>.
\<close>

lemma tokens_status_exposes_access_token:
  "fst (get_tokens_status 1000 (Some ''u1'')
          (initial_state\<lparr>tokenStore :=
             storeUserTokens 1000 1000 ''u1'' example_tokens Map.empty\<rparr>))
   = Response 200 (TokenStatusJson (JSString ''at-1'') ''u1'')"
  by (simp add: get_tokens_status_def hasValidTokens_def getUserTokens_def storeUserTokens_def
        example_tokens_def initial_state_def js_now_plus_seconds_def js_ge_def js_of_string_def
        truthy_def)

section \<open>POST /store-tokens\<close>

text \<open>
  Claim C10. A POST /store-tokens request that carries \<open>userId\<close> and
  \<open>access_token\<close> succeeds and stores a record with that access token. When
  \<open>expires_in\<close> is absent the record expires 1800 seconds after storing; when
  \<open>tenant_id\<close> is absent the record gets \<open>XERO_TENANT_ID\<close> of the environment;
  and a \<open>getUserTokens\<close> for that user at any time within the 1800 seconds returns the
  stored record.
\<close>

theorem store_tokens_defaults:
  assumes "truthy (sb_userId b)" and "truthy (sb_access_token b)"
  shows "fst (post_store_tokens e now1 now2 b st) = Response 200 StoredJson
    \<and> (\<exists>r. tokenStore (snd (post_store_tokens e now1 now2 b st)) (the (sb_userId b)) = Some r
          \<and> access_token r = sb_access_token b
          \<and> (sb_expires_in b = None \<longrightarrow> expires_at r = Some (now1 + 1800 * 1000))
          \<and> (sb_tenant_id b = None \<longrightarrow> tenant_id r = XERO_TENANT_ID e)
          \<and> (sb_expires_in b = None \<longrightarrow>
               (\<forall>now'. now' < now1 + 1800 * 1000 \<longrightarrow>
                  fst (getUserTokens now' (the (sb_userId b))
                         (tokenStore (snd (post_store_tokens e now1 now2 b st)))) = Some r)))"
  using assms
  by (simp add: post_store_tokens_def Let_def storeUserTokens_def getUserTokens_def
        js_or_num_def js_or_def truthy_num_def js_now_plus_seconds_def js_ge_def truthy_def)

theorem store_tokens_defaults_witness:
  "truthy (sb_userId example_store_body) \<and> truthy (sb_access_token example_store_body)
   \<and> sb_expires_in example_store_body = None \<and> sb_tenant_id example_store_body = None
   \<and> fst (post_store_tokens example_env 1000 1001 example_store_body initial_state)
       = Response 200 StoredJson
   \<and> (\<exists>r. tokenStore (snd (post_store_tokens example_env 1000 1001 example_store_body
                               initial_state)) ''u1'' = Some r
         \<and> access_token r = Some ''at-1''
         \<and> expires_at r = Some 1801000
         \<and> tenant_id r = Some ''tenant-0''
         \<and> fst (getUserTokens 1800999 ''u1''
              (tokenStore (snd (post_store_tokens example_env 1000 1001 example_store_body
                                  initial_state)))) = Some r)"
proof -
  have h1: "truthy (sb_userId example_store_body)"
    by (simp add: example_store_body_def truthy_def)
  have h2: "truthy (sb_access_token example_store_body)"
    by (simp add: example_store_body_def truthy_def)
  have h3: "sb_expires_in example_store_body = None" "sb_tenant_id example_store_body = None"
    by (simp_all add: example_store_body_def)
  from store_tokens_defaults [OF h1 h2, of example_env 1000 1001 initial_state] h3
  obtain r where r: "fst (post_store_tokens example_env 1000 1001 example_store_body initial_state)
       = Response 200 StoredJson"
     "tokenStore (snd (post_store_tokens example_env 1000 1001 example_store_body
                               initial_state)) (the (sb_userId example_store_body)) = Some r"
     "access_token r = sb_access_token example_store_body"
     "expires_at r = Some (1000 + 1800 * 1000)"
     "tenant_id r = XERO_TENANT_ID example_env"
     "\<forall>now'. now' < 1000 + 1800 * 1000 \<longrightarrow>
                  fst (getUserTokens now' (the (sb_userId example_store_body))
                         (tokenStore (snd (post_store_tokens example_env 1000 1001
                            example_store_body initial_state)))) = Some r"
    by blast
  from r(6) have g: "fst (getUserTokens 1800999 (the (sb_userId example_store_body))
                         (tokenStore (snd (post_store_tokens example_env 1000 1001
                            example_store_body initial_state)))) = Some r"
    by simp
  have u: "the (sb_userId example_store_body) = ''u1''"
    "sb_access_token example_store_body = Some ''at-1''"
    "XERO_TENANT_ID example_env = Some ''tenant-0''"
    by (simp_all add: example_store_body_def example_env_def)
  from h1 h2 h3 r(1) r(2) r(3) r(4) r(5) g show ?thesis
    unfolding u by auto
qed

section \<open>POST /callback\<close>

text \<open>
  The pieces of the handler: what the \<open>catch\<close> block and the part after the exchange
  do to \<open>usedCodes\<close> and to the requests sent, and which answers they can give.
\<close>

lemma callback_catch_usedCodes:
  "usedCodes (snd (callback_catch b err st)) =
     (if truthy (cb_code b) \<and> not_invalid_grant err
      then usedCodes st - {the (cb_code b)} else usedCodes st)"
  by (simp add: callback_catch_def)

lemma callback_catch_tokenRequests:
  "tokenRequests (snd (callback_catch b err st)) = tokenRequests st"
  by (simp add: callback_catch_def)

lemma callback_error_response_not_used:
  "callback_error_response err \<noteq> code_already_used"
  by (cases err) (auto simp: code_already_used_def)

lemma callback_error_response_not_200:
  "status (callback_error_response err) \<noteq> 200"
  by (cases err) auto

lemma callback_catch_fst: "fst (callback_catch b err st) = callback_error_response err"
  by (simp add: callback_catch_def)

lemma callback_after_exchange_tokenRequests:
  "tokenRequests (snd (callback_after_exchange e w b d st)) = tokenRequests st"
  by (auto simp: callback_after_exchange_def Let_def callback_catch_def
           split: option.splits connections_result.splits list.splits)

lemma callback_after_exchange_not_used:
  "fst (callback_after_exchange e w b d st) \<noteq> code_already_used"
  by (auto simp: callback_after_exchange_def Let_def callback_catch_fst
        callback_error_response_not_used code_already_used_def
           split: option.splits connections_result.splits list.splits)

lemma callback_after_exchange_success_keeps:
  "status (fst (callback_after_exchange e w b d st)) = 200 \<Longrightarrow>
   usedCodes (snd (callback_after_exchange e w b d st)) = usedCodes st"
  by (auto simp: callback_after_exchange_def Let_def callback_catch_fst callback_catch_def
           split: option.splits connections_result.splits list.splits if_splits)

lemma post_callback_used:
  "truthy (cb_code b) \<Longrightarrow> the (cb_code b) \<in> usedCodes st \<Longrightarrow>
   post_callback e w b st = (code_already_used, st)"
  by (simp add: post_callback_def code_already_used_def)

lemma post_callback_not_used:
  "the (cb_code b) \<notin> usedCodes st \<Longrightarrow> fst (post_callback e w b st) \<noteq> code_already_used"
  by (auto simp: post_callback_def Let_def code_already_used_def callback_catch_fst
        callback_after_exchange_not_used [unfolded code_already_used_def]
           split: exchange_result.splits)

lemma post_callback_success_marks:
  "status (fst (post_callback e w b st)) = 200 \<Longrightarrow>
   truthy (cb_code b) \<and> the (cb_code b) \<in> usedCodes (snd (post_callback e w b st))"
  by (auto simp: post_callback_def Let_def callback_catch_fst callback_error_response_not_200
        callback_after_exchange_success_keeps
           split: exchange_result.splits if_splits)

text \<open>
  A request is sent to the token endpoint exactly when the request reaches the exchange,
  and then exactly one.
\<close>

lemma post_callback_tokenRequests:
  "tokenRequests (snd (post_callback e w b st)) =
     (if reaches_exchange e b st
      then tokenRequests st @
           [\<lparr> grant_type = ''authorization_code'', tq_code = the (cb_code b),
              redirect_uri = the (XERO_CALLBACK_URL e),
              basic_auth = (the (XERO_CLIENT_ID e), the (XERO_CLIENT_SECRET e)) \<rparr>]
      else tokenRequests st)"
  by (auto simp: post_callback_def Let_def reaches_exchange_def callback_catch_tokenRequests
        callback_after_exchange_tokenRequests split: exchange_result.splits)

lemmas example_defs =
  example_env_def initial_state_def example_body_def short_body_def empty_code_body_def
  example_token_response_def world_ok_def world_no_response_def world_invalid_grant_def

lemmas callback_defs =
  post_callback_def callback_after_exchange_def callback_catch_def truthy_def Let_def

text \<open>
  Claim C1, as stated, fails in its second half: when the first of two calls with the
  same code finds the token endpoint unreachable, the code is unmarked again, and the
  second call, with the endpoint back, exchanges the code and succeeds instead of
  answering that the code has already been used.
\<close>

theorem second_call_after_retryable_failure:
  "fst (post_callback example_env world_no_response example_body initial_state)
     = Response 503 (ErrorJson ''Service unavailable - Could not reach Xero token endpoint'')
   \<and> status (fst (post_callback example_env world_ok example_body
        (snd (post_callback example_env world_no_response example_body initial_state)))) = 200
   \<and> fst (post_callback example_env world_ok example_body
        (snd (post_callback example_env world_no_response example_body initial_state)))
      \<noteq> code_already_used"
  by (simp add: example_defs callback_defs code_already_used_def)

text \<open>
  Claim C1, amended. A POST /callback carrying a code that is in \<open>usedCodes\<close> answers
  400 "Authorization code has already been used" and changes nothing: no request is
  sent to the token endpoint. Of two calls in sequence with the same code and no sweep
  between them, the second answers "already used" exactly when the code is still in
  \<open>usedCodes\<close> after the first, which is the case whenever the first succeeded; so at
  most one of the two succeeds. (A code is a non-empty string: an empty one counts as
  missing and is never marked.)
\<close>

theorem used_code_rejected:
  assumes "truthy (cb_code b)"
  shows "(the (cb_code b) \<in> usedCodes st \<longrightarrow> post_callback e w b st = (code_already_used, st))
    \<and> (let first = post_callback e w b st; second = post_callback e' w' b (snd first) in
         (fst second = code_already_used) = (the (cb_code b) \<in> usedCodes (snd first))
       \<and> (the (cb_code b) \<in> usedCodes (snd first) \<longrightarrow> snd second = snd first)
       \<and> (status (fst first) = 200 \<longrightarrow> second = (code_already_used, snd first))
       \<and> \<not> (status (fst first) = 200 \<and> status (fst second) = 200))"
proof -
  define first where "first = post_callback e w b st"
  define second where "second = post_callback e' w' b (snd first)"
  have a: "the (cb_code b) \<in> usedCodes st \<longrightarrow> post_callback e w b st = (code_already_used, st)"
    using assms by (simp add: post_callback_used)
  have used: "the (cb_code b) \<in> usedCodes (snd first) \<Longrightarrow> second = (code_already_used, snd first)"
    unfolding second_def using assms by (rule post_callback_used)
  have b1: "(fst second = code_already_used) = (the (cb_code b) \<in> usedCodes (snd first))"
    using used post_callback_not_used [of b "snd first" e' w'] unfolding second_def by auto
  have b3: "status (fst first) = 200 \<Longrightarrow> second = (code_already_used, snd first)"
    using used post_callback_success_marks [of e w b st] unfolding first_def by blast
  have b4: "\<not> (status (fst first) = 200 \<and> status (fst second) = 200)"
    using b3 by (auto simp: code_already_used_def)
  show ?thesis
    using a b1 used b3 b4 unfolding first_def second_def Let_def by auto
qed

theorem used_code_rejected_witness:
  "truthy (cb_code example_body)
   \<and> post_callback example_env world_ok example_body
        (initial_state\<lparr>usedCodes := {''code-0123456789''}\<rparr>)
       = (code_already_used, initial_state\<lparr>usedCodes := {''code-0123456789''}\<rparr>)
   \<and> status (fst (post_callback example_env world_ok example_body initial_state)) = 200
   \<and> post_callback example_env world_ok example_body
        (snd (post_callback example_env world_ok example_body initial_state))
       = (code_already_used, snd (post_callback example_env world_ok example_body initial_state))"
proof -
  have t: "truthy (cb_code example_body)"
    by (simp add: example_body_def truthy_def)
  have m: "the (cb_code example_body) \<in> usedCodes (initial_state\<lparr>usedCodes := {''code-0123456789''}\<rparr>)"
    by (simp add: example_body_def)
  have s: "status (fst (post_callback example_env world_ok example_body initial_state)) = 200"
    by (simp add: example_defs callback_defs)
  from used_code_rejected [OF t, of "initial_state\<lparr>usedCodes := {''code-0123456789''}\<rparr>"
         example_env world_ok example_env world_ok] m
  have 1: "post_callback example_env world_ok example_body
        (initial_state\<lparr>usedCodes := {''code-0123456789''}\<rparr>)
       = (code_already_used, initial_state\<lparr>usedCodes := {''code-0123456789''}\<rparr>)"
    by blast
  from used_code_rejected [OF t, of initial_state example_env world_ok example_env world_ok] s
  have 2: "post_callback example_env world_ok example_body
        (snd (post_callback example_env world_ok example_body initial_state))
       = (code_already_used, snd (post_callback example_env world_ok example_body initial_state))"
    unfolding Let_def by blast
  from t 1 s 2 show ?thesis by blast
qed

text \<open>
  The condition "before a sweep tick" is needed: after a sweep no code is marked, and a
  request with a code used before is not answered "already used".
\<close>

lemma after_sweep_not_rejected:
  "fst (post_callback e w b (sweep st)) \<noteq> code_already_used"
  by (rule post_callback_not_used) (simp add: sweep_def)

text \<open>
  Claim C2. When a POST /callback reaches the exchange and the exchange fails: after an
  \<open>invalid_grant\<close> error the code is still in \<open>usedCodes\<close> and a further request
  with it answers "already used"; after any other failure (another error answer, no
  answer, a failure before sending) the code is out of \<open>usedCodes\<close> again, and a
  further request with it is not answered "already used" but reaches the exchange
  once more.
\<close>

theorem failed_exchange_marking:
  assumes "reaches_exchange e b st" and "exchange_failed (token_endpoint w)"
  shows "let st1 = snd (post_callback e w b st) in
      (is_invalid_grant (token_endpoint w) \<longrightarrow>
         the (cb_code b) \<in> usedCodes st1
         \<and> post_callback e' w' b st1 = (code_already_used, st1))
    \<and> (\<not> is_invalid_grant (token_endpoint w) \<longrightarrow>
         the (cb_code b) \<notin> usedCodes st1
         \<and> usedCodes st1 = usedCodes st
         \<and> reaches_exchange e b st1
         \<and> fst (post_callback e' w' b st1) \<noteq> code_already_used
         \<and> length (tokenRequests (snd (post_callback e w' b st1)))
             = Suc (length (tokenRequests st1)))"
proof -
  define st1 where "st1 = snd (post_callback e w b st)"
  have t: "truthy (cb_code b)" and n: "the (cb_code b) \<notin> usedCodes st"
    using assms(1) by (simp_all add: reaches_exchange_def)
  have u: "usedCodes st1 =
      (if is_invalid_grant (token_endpoint w) then insert (the (cb_code b)) (usedCodes st)
       else usedCodes st)"
    using assms n unfolding st1_def
    by (cases "token_endpoint w")
       (auto simp: post_callback_def Let_def reaches_exchange_def callback_catch_def)
  have g: "is_invalid_grant (token_endpoint w) \<longrightarrow>
         the (cb_code b) \<in> usedCodes st1 \<and> post_callback e' w' b st1 = (code_already_used, st1)"
    using u t by (simp add: post_callback_used)
  have r: "\<not> is_invalid_grant (token_endpoint w) \<Longrightarrow> reaches_exchange e b st1"
    using u assms(1) by (simp add: reaches_exchange_def)
  have ng: "\<not> is_invalid_grant (token_endpoint w) \<longrightarrow>
         the (cb_code b) \<notin> usedCodes st1 \<and> usedCodes st1 = usedCodes st
         \<and> reaches_exchange e b st1
         \<and> fst (post_callback e' w' b st1) \<noteq> code_already_used
         \<and> length (tokenRequests (snd (post_callback e w' b st1)))
             = Suc (length (tokenRequests st1))"
    using u n r by (simp add: post_callback_not_used post_callback_tokenRequests)
  show ?thesis using g ng unfolding st1_def Let_def by blast
qed

theorem failed_exchange_marking_witness:
  "reaches_exchange example_env example_body initial_state
   \<and> exchange_failed (token_endpoint world_invalid_grant)
   \<and> exchange_failed (token_endpoint world_no_response)
   \<and> post_callback example_env world_ok example_body
        (snd (post_callback example_env world_invalid_grant example_body initial_state))
       = (code_already_used,
          snd (post_callback example_env world_invalid_grant example_body initial_state))
   \<and> the (cb_code example_body)
        \<notin> usedCodes (snd (post_callback example_env world_no_response example_body initial_state))
   \<and> fst (post_callback example_env world_ok example_body
        (snd (post_callback example_env world_no_response example_body initial_state)))
      \<noteq> code_already_used"
proof -
  have r: "reaches_exchange example_env example_body initial_state"
    by (simp add: reaches_exchange_def example_defs truthy_def)
  have f1: "exchange_failed (token_endpoint world_invalid_grant)"
    by (simp add: example_defs)
  have f2: "exchange_failed (token_endpoint world_no_response)"
    by (simp add: example_defs)
  have g1: "is_invalid_grant (token_endpoint world_invalid_grant)"
    by (simp add: example_defs)
  have g2: "\<not> is_invalid_grant (token_endpoint world_no_response)"
    by (simp add: example_defs)
  from failed_exchange_marking [OF r f1, of example_env world_ok] g1
  have 1: "post_callback example_env world_ok example_body
        (snd (post_callback example_env world_invalid_grant example_body initial_state))
       = (code_already_used,
          snd (post_callback example_env world_invalid_grant example_body initial_state))"
    unfolding Let_def by blast
  from failed_exchange_marking [OF r f2, of example_env world_ok] g2
  have 2: "the (cb_code example_body)
        \<notin> usedCodes (snd (post_callback example_env world_no_response example_body initial_state))
   \<and> fst (post_callback example_env world_ok example_body
        (snd (post_callback example_env world_no_response example_body initial_state)))
      \<noteq> code_already_used"
    unfolding Let_def by blast
  from r f1 f2 1 2 show ?thesis by blast
qed

text \<open>
  Claim C3, as stated, fails for the code of length 0: the empty string is falsy, the
  handler answers 400 "No authorization code provided" before the dedup step, and the
  code is not marked.
\<close>

theorem empty_code_not_marked:
  "length (the (cb_code empty_code_body)) < 10
   \<and> the (cb_code empty_code_body) \<notin> usedCodes initial_state
   \<and> post_callback example_env world_ok empty_code_body initial_state
       = (Response 400 (ErrorJson ''No authorization code provided''), initial_state)
   \<and> fst (post_callback example_env world_ok empty_code_body initial_state) \<noteq> malformed_code
   \<and> the (cb_code empty_code_body)
       \<notin> usedCodes (snd (post_callback example_env world_ok empty_code_body initial_state))"
  by (simp add: example_defs callback_defs malformed_code_def)

text \<open>
  Claim C3, amended. For every POST /callback with a non-empty code of fewer than 10
  characters that is not marked used, the handler answers 400 "Invalid authorization
  code format", sends nothing to the token endpoint, and leaves the code marked: it is
  inserted before the length check and the rejection does not remove it, so a further
  request with it answers "already used".
\<close>

theorem short_code_stays_marked:
  assumes "truthy (cb_code b)" and "the (cb_code b) \<notin> usedCodes st"
    and "length (the (cb_code b)) < 10"
  shows "post_callback e w b st
           = (malformed_code, st\<lparr>usedCodes := insert (the (cb_code b)) (usedCodes st)\<rparr>)
       \<and> the (cb_code b) \<in> usedCodes (snd (post_callback e w b st))
       \<and> tokenRequests (snd (post_callback e w b st)) = tokenRequests st
       \<and> post_callback e' w' b (snd (post_callback e w b st))
           = (code_already_used, snd (post_callback e w b st))"
proof -
  have 1: "post_callback e w b st
           = (malformed_code, st\<lparr>usedCodes := insert (the (cb_code b)) (usedCodes st)\<rparr>)"
    using assms by (simp add: post_callback_def malformed_code_def Let_def)
  have 2: "the (cb_code b) \<in> usedCodes (snd (post_callback e w b st))"
    by (simp add: 1)
  have 3: "post_callback e' w' b (snd (post_callback e w b st))
           = (code_already_used, snd (post_callback e w b st))"
    using assms(1) 2 by (rule post_callback_used)
  show ?thesis using 1 2 3 by simp
qed

theorem short_code_stays_marked_witness:
  "truthy (cb_code short_body) \<and> the (cb_code short_body) \<notin> usedCodes initial_state
   \<and> length (the (cb_code short_body)) < 10
   \<and> post_callback example_env world_ok short_body initial_state
       = (malformed_code, initial_state\<lparr>usedCodes := {''short''}\<rparr>)"
proof -
  have h1: "truthy (cb_code short_body)" by (simp add: short_body_def truthy_def)
  have h2: "the (cb_code short_body) \<notin> usedCodes initial_state"
    by (simp add: initial_state_def)
  have h3: "length (the (cb_code short_body)) < 10" by (simp add: short_body_def)
  from short_code_stays_marked [OF h1 h2 h3, of example_env world_ok example_env world_ok]
  have "post_callback example_env world_ok short_body initial_state
       = (malformed_code, initial_state\<lparr>usedCodes := {''short''}\<rparr>)"
    by (simp add: short_body_def initial_state_def)
  with h1 h2 h3 show ?thesis by blast
qed

section \<open>authenticateToken\<close>


lemma bearer_tok: "bearer_token (Some ''Bearer tok'') = Some ''tok''"
  by (simp add: bearer_token_def truthy_def)

text \<open>
  A token whose \<open>exp\<close> is a number other than 0 and lies at or before the current
  time is rejected as expired; so is the token that expired one second ago, while the
  same token with \<open>exp\<close> one hour ahead is let through.
\<close>

lemma expired_token_rejected:
  assumes "bearer_token authHeader = Some tok" and "tok \<noteq> []" and "jwt_decode tok = Some p"
    and "truthy (iss p)" and "truthy (aud p)"
    and "exp p = Some n" and "n \<noteq> 0" and "now \<ge> n * 1000"
  shows "authenticateToken jwt_decode now authHeader = Rejected 403 ''Token has expired''"
  using assms by (simp add: authenticateToken_def truthy_def exp_check_fails_def)

lemma exp_one_second_past_one_hour_future:
  "authenticateToken (decode_as (zero_exp_payload\<lparr>exp := Some 1699999999\<rparr>)) 1700000000000
       (Some ''Bearer tok'') = Rejected 403 ''Token has expired''
   \<and> authenticateToken (decode_as (zero_exp_payload\<lparr>exp := Some 1700003600\<rparr>)) 1700000000000
       (Some ''Bearer tok'')
     = Next \<lparr> claims = zero_exp_payload\<lparr>exp := Some 1700003600\<rparr>,
              user_email = Some ''alice@example.com'',
              user_id = Some ''alice@example.com'', user_sub = Some ''alice@example.com'' \<rparr>"
  by (simp add: authenticateToken_def bearer_tok truthy_def decode_as_def
        zero_exp_payload_def exp_check_fails_def js_or_def Let_def)

text \<open>
  Claim C7 says that a token with \<open>iss\<close>, \<open>aud\<close> and a user identifier is
  rejected as expired whenever \<open>exp\<close> is present and \<open>now >= exp * 1000\<close>. The code
  tests \<^verbatim>\<open>payload.exp && Date.now() >= payload.exp * 1000\<close>, and the number 0 is falsy:
  a token with \<open>exp = 0\<close>, expired since 1970, is let through.
\<close>

theorem zero_exp_accepted:
  "exp zero_exp_payload = Some 0 \<and> (1700000000000::int) \<ge> 0 * 1000
   \<and> authenticateToken (decode_as zero_exp_payload) 1700000000000 (Some ''Bearer tok'')
     = Next \<lparr> claims = zero_exp_payload, user_email = Some ''alice@example.com'',
              user_id = Some ''alice@example.com'', user_sub = Some ''alice@example.com'' \<rparr>"
  by (simp add: authenticateToken_def bearer_tok truthy_def decode_as_def
        zero_exp_payload_def exp_check_fails_def js_or_def Let_def)

theorem zero_exp_accepted_witness:
  "\<not> (\<not> truthy (iss zero_exp_payload) \<or> \<not> truthy (aud zero_exp_payload))
   \<and> (\<exists>u. authenticateToken (decode_as zero_exp_payload) 1700000000000 (Some ''Bearer tok'')
            = Next u
          \<and> claims u = zero_exp_payload \<and> user_id u = Some ''alice@example.com'')"
proof -
  have g: "\<not> (\<not> truthy (iss zero_exp_payload) \<or> \<not> truthy (aud zero_exp_payload))"
    by (simp add: zero_exp_payload_def truthy_def)
  from zero_exp_accepted
  have "\<exists>u. authenticateToken (decode_as zero_exp_payload) 1700000000000 (Some ''Bearer tok'')
            = Next u
          \<and> claims u = zero_exp_payload \<and> user_id u = Some ''alice@example.com''"
    by simp
  with g show ?thesis by blast
qed







section \<open>GET /auth\<close>

lemma urlencode_names:
  "urlencode ''response_type'' = ''response_type''"
  "urlencode ''code'' = ''code''"
  "urlencode ''client_id'' = ''client_id''"
  "urlencode ''redirect_uri'' = ''redirect_uri''"
  "urlencode ''scope'' = ''scope''"
  "urlencode ''state'' = ''state''"
  by (simp_all add: urlencode_def urlencode_char_def urlencoded_keeps_def)

lemma urlencode_example:
  "urlencode ''https://app.test/callback'' = ''https%3A%2F%2Fapp.test%2Fcallback''"
  "urlencode ''abc123'' = ''abc123''"
  by (simp_all add: urlencode_def urlencode_char_def urlencoded_keeps_def hex_digit_def)

lemma length_substring_2_15: "length (substring_2_15 s) = min 13 (length s - 2)"
  by (simp add: substring_2_15_def)

lemma get_auth_configured:
  assumes "truthy (XERO_CLIENT_ID e)" and "truthy (XERO_CALLBACK_URL e)"
  shows "get_auth e random1 random2 =
     Response 200 (AuthUrlJson
       (''https://login.xero.com/identity/connect/authorize?response_type=code&client_id=''
          @ urlencode (the (XERO_CLIENT_ID e))
          @ ''&redirect_uri='' @ urlencode (the (XERO_CALLBACK_URL e))
          @ ''&scope='' @ urlencode (the (js_or (XERO_SCOPES e) (Some default_scopes)))
          @ ''&state='' @ urlencode (substring_2_15 random1 @ substring_2_15 random2))
       (substring_2_15 random1 @ substring_2_15 random2))"
  using assms by (simp add: get_auth_def Let_def urlencode_names)

text \<open>
  Claim C9, as stated, fails in its last part: the state is made of the base-36 digits
  of two random numbers, as many as each number prints. When both numbers are one
  half, printed \<open>0.i\<close>, the state is \<open>ii\<close>, of length 2.
\<close>

theorem short_state_counterexample:
  "truthy (XERO_CLIENT_ID example_env) \<and> truthy (XERO_CLIENT_SECRET example_env)
   \<and> truthy (XERO_CALLBACK_URL example_env)
   \<and> auth_state (get_auth example_env ''0.i'' ''0.i'') = ''ii''
   \<and> \<not> 20 \<le> length (auth_state (get_auth example_env ''0.i'' ''0.i''))"
  by (simp add: get_auth_def example_env_def truthy_def substring_2_15_def Let_def)

text \<open>
  Claim C9, amended. With client id and callback URL set, every answer of GET /auth is
  200 with an authorization URL that starts with the authorize endpoint, contains
  \<open>response_type=code\<close>, then \<open>client_id=\<close> with the url-encoded client id and
  \<open>redirect_uri=\<close> with the url-encoded callback URL, and ends with the state; the
  state consists of up to 13 characters from each of two random numbers printed in
  base 36, those after \<open>0.\<close>: with \<open>d1\<close> and \<open>d2\<close> digits printed after
  \<open>0.\<close> its length is \<open>min 13 d1 + min 13 d2\<close>, so at most 26, and at least 20
  whenever each number prints with at least 10 digits after \<open>0.\<close>.
\<close>

theorem auth_url_contents:
  assumes "truthy (XERO_CLIENT_ID e)" and "truthy (XERO_CALLBACK_URL e)"
  shows "\<exists>authUrl state.
      get_auth e random1 random2 = Response 200 (AuthUrlJson authUrl state)
    \<and> prefix ''https://login.xero.com/identity/connect/authorize?'' authUrl
    \<and> sublist ''response_type=code'' authUrl
    \<and> sublist (''client_id='' @ urlencode (the (XERO_CLIENT_ID e))
                @ ''&redirect_uri='' @ urlencode (the (XERO_CALLBACK_URL e)) @ ''&'') authUrl
    \<and> suffix (''&state='' @ urlencode state) authUrl
    \<and> state = substring_2_15 random1 @ substring_2_15 random2
    \<and> length state = min 13 (length random1 - 2) + min 13 (length random2 - 2)
    \<and> length state \<le> 26
    \<and> (12 \<le> length random1 \<and> 12 \<le> length random2 \<longrightarrow> 20 \<le> length state)"
proof -
  define state where "state = substring_2_15 random1 @ substring_2_15 random2"
  define scopes where "scopes = urlencode (the (js_or (XERO_SCOPES e) (Some default_scopes)))"
  define mid where "mid = ''client_id='' @ urlencode (the (XERO_CLIENT_ID e))
                @ ''&redirect_uri='' @ urlencode (the (XERO_CALLBACK_URL e)) @ ''&''"
  define authUrl where "authUrl =
     ''https://login.xero.com/identity/connect/authorize?response_type=code&'' @ mid
       @ (''scope='' @ scopes @ ''&state='' @ urlencode state)"
  have g: "get_auth e random1 random2 = Response 200 (AuthUrlJson authUrl state)"
    using get_auth_configured [OF assms, of random1 random2]
    by (simp add: authUrl_def mid_def scopes_def state_def)
  have p: "prefix ''https://login.xero.com/identity/connect/authorize?'' authUrl"
    by (simp add: authUrl_def)
  have r: "sublist ''response_type=code'' authUrl"
  proof -
    have "authUrl = ''https://login.xero.com/identity/connect/authorize?'' @ ''response_type=code''
        @ (''&'' @ mid @ (''scope='' @ scopes @ ''&state='' @ urlencode state))"
      by (simp add: authUrl_def)
    then show ?thesis by (simp only: sublist_appendI)
  qed
  have m: "sublist mid authUrl"
    unfolding authUrl_def by (rule sublist_appendI)
  have s: "suffix (''&state='' @ urlencode state) authUrl"
  proof -
    have "authUrl = (''https://login.xero.com/identity/connect/authorize?response_type=code&''
        @ mid @ ''scope='' @ scopes) @ (''&state='' @ urlencode state)"
      by (simp add: authUrl_def)
    then show ?thesis by (simp only: suffix_appendI suffix_order.refl)
  qed
  have e: "length state = min 13 (length random1 - 2) + min 13 (length random2 - 2)"
    by (simp add: state_def length_substring_2_15)
  have l: "length state \<le> 26"
    by (simp add: state_def length_substring_2_15)
  have l2: "12 \<le> length random1 \<and> 12 \<le> length random2 \<longrightarrow> 20 \<le> length state"
    by (auto simp add: state_def length_substring_2_15)
  from g p r m s e l l2 show ?thesis
    unfolding mid_def state_def by blast
qed

theorem auth_url_contents_witness:
  "truthy (XERO_CLIENT_ID example_env) \<and> truthy (XERO_CALLBACK_URL example_env)
   \<and> (\<exists>authUrl state.
        get_auth example_env ''0.4fzyo82mvyr'' ''0.a1b2c3d4e5f''
          = Response 200 (AuthUrlJson authUrl state)
      \<and> sublist ''response_type=code'' authUrl
      \<and> sublist ''client_id=abc123&redirect_uri=https%3A%2F%2Fapp.test%2Fcallback&'' authUrl
      \<and> state = ''4fzyo82mvyra1b2c3d4e5f'' \<and> 20 \<le> length state)"
proof -
  have h: "truthy (XERO_CLIENT_ID example_env)" "truthy (XERO_CALLBACK_URL example_env)"
    by (simp_all add: example_env_def truthy_def)
  have u: "the (XERO_CLIENT_ID example_env) = ''abc123''"
      "the (XERO_CALLBACK_URL example_env) = ''https://app.test/callback''"
    by (simp_all add: example_env_def)
  have s: "substring_2_15 ''0.4fzyo82mvyr'' @ substring_2_15 ''0.a1b2c3d4e5f''
      = ''4fzyo82mvyra1b2c3d4e5f''"
    by (simp add: substring_2_15_def)
  from auth_url_contents [OF h, of "''0.4fzyo82mvyr''" "''0.a1b2c3d4e5f''"]
  obtain authUrl state where
    a: "get_auth example_env ''0.4fzyo82mvyr'' ''0.a1b2c3d4e5f''
          = Response 200 (AuthUrlJson authUrl state)"
      "sublist ''response_type=code'' authUrl"
      "sublist (''client_id='' @ urlencode (the (XERO_CLIENT_ID example_env))
                @ ''&redirect_uri='' @ urlencode (the (XERO_CALLBACK_URL example_env)) @ ''&'')
         authUrl"
      "state = substring_2_15 ''0.4fzyo82mvyr'' @ substring_2_15 ''0.a1b2c3d4e5f''"
    by blast
  from a(3) have b: "sublist ''client_id=abc123&redirect_uri=https%3A%2F%2Fapp.test%2Fcallback&''
      authUrl"
    by (simp add: u urlencode_example)
  from a(4) have c: "state = ''4fzyo82mvyra1b2c3d4e5f''" by (simp only: s)
  have d: "20 \<le> length ''4fzyo82mvyra1b2c3d4e5f''" by simp
  from h a(1) a(2) b c d show ?thesis by blast
qed

end
